theory Spec2Isabelle
  imports Complex_Main "HOL-Library.Sublist"
begin

section \<open>Python strings\<close>

text \<open>
  A Python \<open>str\<close> is modelled as a \<open>string\<close>, one \<open>char\<close> per code point, which
  covers the code points 0 to 255. On that range \<open>str.isspace\<close>, \<open>str.strip()\<close> without
  argument and the regular-expression class \<open>\s\<close> agree on the twelve characters below.
\<close>

definition isspace :: "char \<Rightarrow> bool" where
  "isspace c = (c \<in> set [CHR 0x09, CHR 0x0A, CHR 0x0B, CHR 0x0C, CHR 0x0D,
                          CHR 0x1C, CHR 0x1D, CHR 0x1E, CHR 0x1F, CHR 0x20,
                          CHR 0x85, CHR 0xA0])"

text \<open>\<open>str.lower()\<close>: the letters A to Z and the upper-case letters of Latin-1 move up by 32.\<close>

definition lower_char :: "char \<Rightarrow> char" where
  "lower_char c =
     (let n = (of_char c :: nat)
      in if (65 \<le> n \<and> n \<le> 90) \<or> (192 \<le> n \<and> n \<le> 222 \<and> n \<noteq> 215)
         then char_of (n + 32) else c)"

definition lower :: "string \<Rightarrow> string" where
  "lower s = map lower_char s"

text \<open>\<open>str.strip()\<close>: drop the white space at both ends.\<close>

definition lstrip :: "string \<Rightarrow> string" where
  "lstrip s = dropWhile isspace s"

definition rstrip :: "string \<Rightarrow> string" where
  "rstrip s = rev (dropWhile isspace (rev s))"

definition strip :: "string \<Rightarrow> string" where
  "strip s = rstrip (lstrip s)"

text \<open>\<open>s.startswith(p)\<close>, read from the left.\<close>

fun startswith :: "string \<Rightarrow> string \<Rightarrow> bool" where
  "startswith s [] = True"
| "startswith [] (p # ps) = False"
| "startswith (c # cs) (p # ps) = (c = p \<and> startswith cs ps)"

text \<open>\<open>b in s\<close> for two strings: \<open>b\<close> starts at some position of \<open>s\<close>.\<close>

fun str_in :: "string \<Rightarrow> string \<Rightarrow> bool" where
  "str_in b [] = (b = [])"
| "str_in b (c # cs) = (startswith (c # cs) b \<or> str_in b cs)"

section \<open>Regular expressions\<close>

text \<open>
  The patterns of \<open>security.py\<close> use literals, the dot (every character but the newline),
  \<open>\s\<close>, character ranges and sets, concatenation, \<open>*\<close>, \<open>+\<close> and the bounded repetition
  \<open>{3,4}\<close>. None captures a group or looks around, so \<open>re.search\<close> succeeds exactly when
  some substring of the subject belongs to the pattern's language.
\<close>

datatype cclass =
    Lit char
  | Dot
  | WSpace
  | Range char char
  | OneOf string

fun cmatch :: "cclass \<Rightarrow> char \<Rightarrow> bool" where
  "cmatch (Lit a) c = (c = a)"
| "cmatch Dot c = (c \<noteq> CHR 0x0A)"
| "cmatch WSpace c = isspace c"
| "cmatch (Range lo hi) c = ((of_char lo :: nat) \<le> of_char c \<and> (of_char c :: nat) \<le> of_char hi)"
| "cmatch (OneOf cs) c = (c \<in> set cs)"

datatype regex =
    Fail
  | Empty
  | Atom cclass
  | Alt regex regex
  | Seq regex regex
  | Star regex

definition Plus :: "regex \<Rightarrow> regex" where
  "Plus r = Seq r (Star r)"

definition Opt :: "regex \<Rightarrow> regex" where
  "Opt r = Alt Empty r"

fun seqs :: "regex list \<Rightarrow> regex" where
  "seqs [] = Empty"
| "seqs [r] = r"
| "seqs (r # rs) = Seq r (seqs rs)"

definition lits :: "string \<Rightarrow> regex" where
  "lits s = seqs (map (\<lambda>c. Atom (Lit c)) s)"

text \<open>The language of a pattern.\<close>

inductive_set star :: "string set \<Rightarrow> string set" for A :: "string set" where
  star_nil: "[] \<in> star A"
| star_app: "u \<in> A \<Longrightarrow> v \<in> star A \<Longrightarrow> u @ v \<in> star A"

fun lang :: "regex \<Rightarrow> string set" where
  "lang Fail = {}"
| "lang Empty = {[]}"
| "lang (Atom k) = {[c] | c. cmatch k c}"
| "lang (Alt r s) = lang r \<union> lang s"
| "lang (Seq r s) = {u @ v | u v. u \<in> lang r \<and> v \<in> lang s}"
| "lang (Star r) = star (lang r)"

text \<open>Matching by derivatives: \<open>deriv c r\<close> is what is left of \<open>r\<close> after reading \<open>c\<close>.\<close>

fun nullable :: "regex \<Rightarrow> bool" where
  "nullable Fail = False"
| "nullable Empty = True"
| "nullable (Atom k) = False"
| "nullable (Alt r s) = (nullable r \<or> nullable s)"
| "nullable (Seq r s) = (nullable r \<and> nullable s)"
| "nullable (Star r) = True"

fun deriv :: "char \<Rightarrow> regex \<Rightarrow> regex" where
  "deriv c Fail = Fail"
| "deriv c Empty = Fail"
| "deriv c (Atom k) = (if cmatch k c then Empty else Fail)"
| "deriv c (Alt r s) = Alt (deriv c r) (deriv c s)"
| "deriv c (Seq r s) =
     (if nullable r then Alt (Seq (deriv c r) s) (deriv c s) else Seq (deriv c r) s)"
| "deriv c (Star r) = Seq (deriv c r) (Star r)"

text \<open>\<open>re.match\<close>: some prefix of the subject is in the language.\<close>

fun re_match :: "regex \<Rightarrow> string \<Rightarrow> bool" where
  "re_match r [] = nullable r"
| "re_match r (c # cs) = (nullable r \<or> re_match (deriv c r) cs)"

text \<open>\<open>re.search\<close>: a match that starts at some position of the subject.\<close>

fun re_search :: "regex \<Rightarrow> string \<Rightarrow> bool" where
  "re_search r [] = nullable r"
| "re_search r (c # cs) = (re_match r (c # cs) \<or> re_search r cs)"

section \<open>The command policy (security.py, config.py)\<close>

definition BLOCKED_COMMANDS :: "string list" where
  "BLOCKED_COMMANDS =
     [''rm -rf'', ''rm -fr'', ''rm -r'', ''dd'', ''mkfs'', ''shutdown'',
      ''reboot'', ''halt'', ''poweroff'', ''init'', ''kill'', ''chmod 777'']"

text \<open>
  The seven patterns, in the order of the source:
  \<^verbatim>\<open>rm\s+.*-.*[rf]\<close>, \<^verbatim>\<open>:\(\)\{.*;\s*:\<close>, \<^verbatim>\<open>chmod\s+[0-7]{3,4}\s+.*\<close>, \<^verbatim>\<open>>\s*/dev/sd[a-z]\<close>,
  \<^verbatim>\<open>dd\s+.*if=.*of=\<close>, \<^verbatim>\<open>mkfs\s+\<close>, \<^verbatim>\<open>>\s*/proc/\<close>.
\<close>

definition octal :: regex where
  "octal = Atom (Range (CHR ''0'') (CHR ''7''))"

definition dangerous_patterns :: "regex list" where
  "dangerous_patterns =
     [seqs [lits ''rm'', Plus (Atom WSpace), Star (Atom Dot), lits ''-'', Star (Atom Dot),
            Atom (OneOf ''rf'')],
      seqs [lits '':(){'', Star (Atom Dot), lits '';'', Star (Atom WSpace), lits '':''],
      seqs [lits ''chmod'', Plus (Atom WSpace), octal, octal, octal, Opt octal,
            Plus (Atom WSpace), Star (Atom Dot)],
      seqs [lits ''>'', Star (Atom WSpace), lits ''/dev/sd'',
            Atom (Range (CHR ''a'') (CHR ''z''))],
      seqs [lits ''dd'', Plus (Atom WSpace), Star (Atom Dot), lits ''if='', Star (Atom Dot),
            lits ''of=''],
      seqs [lits ''mkfs'', Plus (Atom WSpace)],
      seqs [lits ''>'', Star (Atom WSpace), lits ''/proc/'']]"

definition allowed_prefixes :: "string list" where
  "allowed_prefixes =
     [''ls'', ''pwd'', ''whoami'', ''date'', ''uptime'',
      ''free'', ''df'', ''ps'', ''cat '', ''grep '', ''tail '',
      ''head '', ''wc '', ''find '', ''du '', ''uname'', ''echo '',
      ''cd '', ''mkdir '', ''touch '', ''cp '', ''mv '']"

text \<open>
  The three \<open>for\<close> loops of \<open>is_command_allowed\<close>. Each leaves the function at its first
  hit; the value here says whether the loop has hit.
\<close>

fun blocked_hit :: "string list \<Rightarrow> string \<Rightarrow> bool" where
  "blocked_hit [] command_lower = False"
| "blocked_hit (blocked # rest) command_lower =
     (if str_in blocked command_lower then True else blocked_hit rest command_lower)"

fun pattern_hit :: "regex list \<Rightarrow> string \<Rightarrow> bool" where
  "pattern_hit [] command_lower = False"
| "pattern_hit (pattern # rest) command_lower =
     (if re_search pattern command_lower then True else pattern_hit rest command_lower)"

fun prefix_hit :: "string list \<Rightarrow> string \<Rightarrow> bool" where
  "prefix_hit [] command_lower = False"
| "prefix_hit (p # rest) command_lower =
     (if startswith command_lower p then True else prefix_hit rest command_lower)"

definition is_command_allowed :: "string \<Rightarrow> bool" where
  "is_command_allowed command =
     (let command_lower = strip (lower command)
      in if blocked_hit BLOCKED_COMMANDS command_lower then False
         else if pattern_hit dangerous_patterns command_lower then False
         else if prefix_hit allowed_prefixes command_lower then True
         else False)"

text \<open>
  \<open>sanitize_command\<close>. The first substitution, \<^verbatim>\<open>re.sub(r'\s+', ' ', command.strip())\<close>,
  replaces every maximal run of white space by one space; the second,
  \<^verbatim>\<open>re.sub(r'[;&|`$<>]', '', command)\<close>, deletes the seven characters.
\<close>

function collapse_spaces :: "string \<Rightarrow> string" where
  "collapse_spaces [] = []"
| "collapse_spaces (c # cs) =
     (if isspace c then CHR '' '' # collapse_spaces (dropWhile isspace cs)
      else c # collapse_spaces cs)"
  by pat_completeness auto
termination
  by (relation "measure length") (auto simp: length_dropWhile_le less_Suc_eq_le)

definition dangerous_chars :: "char list" where
  "dangerous_chars = [CHR '';'', CHR ''&'', CHR ''|'', CHR 0x60, CHR ''$'', CHR ''<'', CHR ''>'']"

definition sanitize_command :: "string \<Rightarrow> string" where
  "sanitize_command command =
     (let command = collapse_spaces (strip command)
      in filter (\<lambda>c. c \<notin> set dangerous_chars) command)"

section \<open>Exceptions and library calls (ssh_manager.py)\<close>

text \<open>
  An exception is its class and its message (\<open>str(e)\<close>). \<open>OtherException\<close> stands for
  every class below \<open>Exception\<close> that the source does not name: a socket error or timeout,
  a decoding error. \<open>AuthenticationException\<close> is a subclass of \<open>SSHException\<close>.
\<close>

datatype exc_class =
    AuthenticationException
  | SSHException
  | ValueError
  | OtherException
  | Exception

type_synonym exc = "exc_class \<times> string"

fun is_instance :: "exc_class \<Rightarrow> exc_class \<Rightarrow> bool" where
  "is_instance c Exception = True"
| "is_instance AuthenticationException SSHException = True"
| "is_instance c d = (c = d)"

datatype auth =
    PKey string
  | Password string

text \<open>
  The calls into paramiko, the record store and the mailer, in the order they are made.
  \<open>Client_connect\<close>, \<open>Client_exec_command\<close>, \<open>Stdout_read\<close>, \<open>Stderr_read\<close> and
  \<open>Recv_exit_status\<close> talk to the remote host; the others are local.
\<close>

datatype event =
    SSHClient_new
  | From_private_key string
  | Client_connect string string int auth nat
  | Client_exec_command string
  | Stdout_read
  | Stderr_read
  | Recv_exit_status
  | Client_close
  | Create_log string
  | Send_command_notification string

fun network_event :: "event \<Rightarrow> bool" where
  "network_event (Client_connect h u p a t) = True"
| "network_event (Client_exec_command c) = True"
| "network_event Stdout_read = True"
| "network_event Stderr_read = True"
| "network_event Recv_exit_status = True"
| "network_event (Send_command_notification c) = True"
| "network_event e = False"

text \<open>
  What the outside answers to each call during one invocation: a value, or the exception
  the call raises. The byte strings read from the channel are decoded by \<open>decode_utf8\<close>
  (strict, may raise) or \<open>decode_utf8_ignore\<close> (\<open>errors='ignore'\<close>, total). The two
  readings of the clock are reals; the rounding of floats is not modelled.
\<close>

record world =
  from_private_key :: "string \<Rightarrow> exc + string"
  connect :: "string \<Rightarrow> string \<Rightarrow> int \<Rightarrow> auth \<Rightarrow> nat \<Rightarrow> exc + unit"
  exec_command :: "string \<Rightarrow> exc + unit"
  stdout_read :: "exc + string"
  stderr_read :: "exc + string"
  recv_exit_status :: int
  decode_utf8 :: "string \<Rightarrow> exc + string"
  decode_utf8_ignore :: "string \<Rightarrow> string"
  time_start :: real
  time_end :: real
  create_log :: "exc + unit"

text \<open>
  The local state of one call: whether the variable \<open>client\<close> holds a client (it starts
  as \<open>None\<close>), and the calls made so far.
\<close>

record st =
  client :: bool
  trace :: "event list"

definition st0 :: st where
  "st0 = \<lparr>client = False, trace = []\<rparr>"

type_synonym 'a prog = "st \<Rightarrow> (exc + 'a) \<times> st"

definition ret :: "'a \<Rightarrow> 'a prog" where
  "ret v s = (Inr v, s)"

definition raise :: "exc \<Rightarrow> 'a prog" where
  "raise e s = (Inl e, s)"

text \<open>Sequencing: an exception of the first statement skips the rest of the block.\<close>

definition thn :: "'a prog \<Rightarrow> ('a \<Rightarrow> 'b prog) \<Rightarrow> 'b prog" where
  "thn m f s = (case m s of (Inl e, s') \<Rightarrow> (Inl e, s') | (Inr v, s') \<Rightarrow> f v s')"

text \<open>A library call: it is recorded, then returns or raises what the world answers.\<close>

definition call :: "event \<Rightarrow> exc + 'a \<Rightarrow> 'a prog" where
  "call ev r s = (r, s\<lparr>trace := trace s @ [ev]\<rparr>)"

text \<open>\<open>client = paramiko.SSHClient()\<close>, with the host key policy set on the new object.\<close>

definition new_client :: "unit prog" where
  "new_client s = (Inr (), s\<lparr>client := True, trace := trace s @ [SSHClient_new]\<rparr>)"

text \<open>The truth value of an optional string: \<open>None\<close> and the empty string are false.\<close>

fun truthy :: "string option \<Rightarrow> bool" where
  "truthy None = False"
| "truthy (Some s) = (s \<noteq> [])"

definition SSH_TIMEOUT :: nat where
  "SSH_TIMEOUT = 30"

section \<open>execute_command (ssh_manager.py)\<close>

text \<open>The body of the \<open>try\<close> block.\<close>

definition execute_try ::
  "world \<Rightarrow> string \<Rightarrow> string \<Rightarrow> int \<Rightarrow> string option \<Rightarrow> string option \<Rightarrow> string
     \<Rightarrow> (string \<times> string \<times> int \<times> real) prog" where
  "execute_try w host username port password ssh_key command =
     (if \<not> is_command_allowed command
      then raise (ValueError, ''Command not allowed: '' @ command)
      else
        thn new_client (\<lambda>_.
        thn (if truthy ssh_key then
               thn (call (From_private_key (the ssh_key)) (from_private_key w (the ssh_key)))
                 (\<lambda>private_key.
                    call (Client_connect host username port (PKey private_key) SSH_TIMEOUT)
                      (connect w host username port (PKey private_key) SSH_TIMEOUT))
             else if truthy password then
               call (Client_connect host username port (Password (the password)) SSH_TIMEOUT)
                 (connect w host username port (Password (the password)) SSH_TIMEOUT)
             else raise (ValueError, ''Either password or SSH key must be provided''))
          (\<lambda>_.
        thn (call (Client_exec_command command) (exec_command w command)) (\<lambda>_.
        thn (call Stdout_read (stdout_read w)) (\<lambda>out_bytes.
        thn (call Stderr_read (stderr_read w)) (\<lambda>err_bytes.
        thn (call Recv_exit_status (Inr (recv_exit_status w))) (\<lambda>exit_code.
        ret (decode_utf8_ignore w out_bytes, decode_utf8_ignore w err_bytes, exit_code,
             time_end w - time_start w))))))))"

text \<open>The three \<open>except\<close> clauses, tried in order; each raises a plain \<open>Exception\<close>.\<close>

definition execute_except :: "exc \<Rightarrow> exc" where
  "execute_except e =
     (if is_instance (fst e) AuthenticationException
        then (Exception, ''Authentication failed. Check credentials.'')
      else if is_instance (fst e) SSHException
        then (Exception, ''SSH connection failed: '' @ snd e)
      else if is_instance (fst e) Exception
        then (Exception, ''Error executing command: '' @ snd e)
      else e)"

text \<open>The \<open>finally\<close> clause: \<open>if client: client.close()\<close>.\<close>

definition finally_close :: "st \<Rightarrow> st" where
  "finally_close s = (if client s then s\<lparr>trace := trace s @ [Client_close]\<rparr> else s)"

definition execute_command ::
  "world \<Rightarrow> string \<Rightarrow> string \<Rightarrow> int \<Rightarrow> string option \<Rightarrow> string option \<Rightarrow> string
     \<Rightarrow> (exc + (string \<times> string \<times> int \<times> real)) \<times> event list" where
  "execute_command w host username port password ssh_key command =
     (case execute_try w host username port password ssh_key command st0 of
        (Inr v, s) \<Rightarrow> (Inr v, trace (finally_close s))
      | (Inl e, s) \<Rightarrow> (Inl (execute_except e), trace (finally_close s)))"

section \<open>test_connection (ssh_manager.py)\<close>

definition probe_command :: string where
  "probe_command = ''echo '' @ [CHR 0x27] @ ''Connection successful'' @ [CHR 0x27]"

definition test_probe :: "world \<Rightarrow> bool prog" where
  "test_probe w =
     thn (call (Client_exec_command probe_command) (exec_command w probe_command)) (\<lambda>_.
     thn (call Stdout_read (stdout_read w)) (\<lambda>out_bytes.
     thn (\<lambda>s. (decode_utf8 w out_bytes, s)) (\<lambda>txt.
     ret (str_in ''Connection successful'' (strip txt)))))"

definition test_try ::
  "world \<Rightarrow> string \<Rightarrow> string \<Rightarrow> int \<Rightarrow> string option \<Rightarrow> string option \<Rightarrow> bool prog" where
  "test_try w host username port password ssh_key =
     thn new_client (\<lambda>_.
       if truthy ssh_key then
         thn (call (From_private_key (the ssh_key)) (from_private_key w (the ssh_key)))
           (\<lambda>private_key.
         thn (call (Client_connect host username port (PKey private_key) 10)
                (connect w host username port (PKey private_key) 10)) (\<lambda>_.
         test_probe w))
       else if truthy password then
         thn (call (Client_connect host username port (Password (the password)) 10)
                (connect w host username port (Password (the password)) 10)) (\<lambda>_.
         test_probe w)
       else ret False)"

text \<open>\<open>except Exception: return False\<close>, then the \<open>finally\<close> clause.\<close>

definition test_connection ::
  "world \<Rightarrow> string \<Rightarrow> string \<Rightarrow> int \<Rightarrow> string option \<Rightarrow> string option
     \<Rightarrow> (exc + bool) \<times> event list" where
  "test_connection w host username port password ssh_key =
     (case test_try w host username port password ssh_key st0 of
        (Inr b, s) \<Rightarrow> (Inr b, trace (finally_close s))
      | (Inl e, s) \<Rightarrow>
          (if is_instance (fst e) Exception then Inr False else Inl e,
           trace (finally_close s)))"

section \<open>The execute endpoint (app.py)\<close>

record server =
  srv_name :: string
  srv_host :: string
  srv_username :: string
  srv_port :: int
  srv_use_password :: bool
  srv_password :: "string option"
  srv_ssh_key :: "string option"

record command_response =
  resp_output :: string
  resp_error :: string
  resp_exit_code :: int
  resp_execution_time :: real
  resp_server :: string
  resp_command :: string

datatype http =
    Ok command_response
  | HTTPException nat string

text \<open>The two \<open>except\<close> clauses of the endpoint: \<open>ValueError\<close> first, then \<open>Exception\<close>.\<close>

definition endpoint_except :: "exc \<Rightarrow> http" where
  "endpoint_except e =
     (if is_instance (fst e) ValueError then HTTPException 400 (snd e)
      else HTTPException 500 (''Failed to execute command: '' @ snd e))"

text \<open>
  The endpoint, from the result of the server lookup on. The log entry is written and
  the notification task is created inside the same \<open>try\<close> block.
\<close>

definition execute_endpoint :: "world \<Rightarrow> server option \<Rightarrow> string \<Rightarrow> http \<times> event list" where
  "execute_endpoint w server raw =
     (case server of
        None \<Rightarrow> (HTTPException 404 ''Server not found'', [])
      | Some srv \<Rightarrow>
          (let command = sanitize_command raw
           in case execute_command w (srv_host srv) (srv_username srv) (srv_port srv)
                     (if srv_use_password srv then srv_password srv else None)
                     (if \<not> srv_use_password srv then srv_ssh_key srv else None)
                     command of
                (Inl e, tr) \<Rightarrow> (endpoint_except e, tr)
              | (Inr (output, error, exit_code, exec_time), tr) \<Rightarrow>
                  (case create_log w of
                     Inl e \<Rightarrow> (endpoint_except e, tr @ [Create_log command])
                   | Inr _ \<Rightarrow>
                       (Ok \<lparr>resp_output = output, resp_error = error,
                           resp_exit_code = exit_code, resp_execution_time = exec_time,
                           resp_server = srv_name srv, resp_command = command\<rparr>,
                        tr @ [Create_log command]
                           @ (if exit_code \<noteq> 0 then [Send_command_notification command]
                              else [])))))"

section \<open>Tokens of a command\<close>

text \<open>
  The first token of a command is what precedes its first white space. The allow list
  holds nine verbs written bare and thirteen written with one trailing space.
\<close>

definition first_token :: "string \<Rightarrow> string" where
  "first_token c = takeWhile (\<lambda>ch. \<not> isspace ch) c"

definition bare_verbs :: "string list" where
  "bare_verbs = filter (\<lambda>p. CHR '' '' \<notin> set p) allowed_prefixes"

definition spaced_verbs :: "string list" where
  "spaced_verbs = map butlast (filter (\<lambda>p. CHR '' '' \<in> set p) allowed_prefixes)"

text \<open>The first two scans of \<open>is_command_allowed\<close> let the command through.\<close>

definition scans_pass :: "string \<Rightarrow> bool" where
  "scans_pass command =
     (\<not> blocked_hit BLOCKED_COMMANDS (strip (lower command))
      \<and> \<not> pattern_hit dangerous_patterns (strip (lower command)))"

text \<open>
  The specification's reading of the allow list: the first token is exactly a bare verb,
  or it is exactly a spaced verb and one space follows it.
\<close>

definition token_exact :: "string \<Rightarrow> bool" where
  "token_exact c =
     (first_token c \<in> set bare_verbs
      \<or> (first_token c \<in> set spaced_verbs \<and> startswith c (first_token c @ '' '')))"

text \<open>The weaker reading: the first token only has to begin with a bare verb.\<close>

definition token_begins :: "string \<Rightarrow> bool" where
  "token_begins c =
     ((\<exists>v \<in> set bare_verbs. startswith (first_token c) v)
      \<or> (first_token c \<in> set spaced_verbs \<and> startswith c (first_token c @ '' '')))"

section \<open>Sessions left open by a sequence of calls\<close>

text \<open>Whether a client is open after the calls, given whether one was open before.\<close>

fun open_after :: "bool \<Rightarrow> event list \<Rightarrow> bool" where
  "open_after b [] = b"
| "open_after b (SSHClient_new # es) = open_after True es"
| "open_after b (Client_close # es) = open_after False es"
| "open_after b (e # es) = open_after b es"

section \<open>Two sample worlds\<close>

text \<open>A host that accepts every credential and answers every command with an echo line.\<close>

definition world_up :: world where
  "world_up =
     \<lparr>from_private_key = (\<lambda>k. Inr k),
      connect = (\<lambda>h u p a t. Inr ()),
      exec_command = (\<lambda>c. Inr ()),
      stdout_read = Inr ''Connection successful'',
      stderr_read = Inr [],
      recv_exit_status = 0,
      decode_utf8 = (\<lambda>b. Inr b),
      decode_utf8_ignore = (\<lambda>b. b),
      time_start = 0,
      time_end = 1,
      create_log = Inr ()\<rparr>"

text \<open>The same host, refusing every credential.\<close>

definition world_refusing :: world where
  "world_refusing =
     world_up\<lparr>connect := (\<lambda>h u p a t. Inl (AuthenticationException, ''Authentication failed.''))\<rparr>"

definition sample_server :: server where
  "sample_server =
     \<lparr>srv_name = ''web'', srv_host = ''example.org'', srv_username = ''admin'', srv_port = 22,
      srv_use_password = True, srv_password = Some ''secret'', srv_ssh_key = None\<rparr>"

section \<open>String and pattern operations meet their specifications\<close>


lemma startswith_prefix: "startswith s p = prefix p s"
  by (induction s p rule: startswith.induct) auto

lemma str_in_sublist: "str_in b s = sublist b s"
  by (induction s) (auto simp: startswith_prefix sublist_Cons_right)

lemma blocked_hit_iff: "blocked_hit bs c = (\<exists>b \<in> set bs. sublist b c)"
  by (induction bs) (auto simp: str_in_sublist)

lemma prefix_hit_iff: "prefix_hit ps c = (\<exists>p \<in> set ps. prefix p c)"
  by (induction ps) (auto simp: startswith_prefix)

lemma pattern_hit_iff: "pattern_hit rs c = (\<exists>r \<in> set rs. re_search r c)"
  by (induction rs) auto

lemma nullable_lang: "nullable r = ([] \<in> lang r)"
  by (induction r) (auto intro: star.star_nil)

lemma star_cons_iff:
  "(c # w \<in> star A) = (\<exists>u v. w = u @ v \<and> c # u \<in> A \<and> v \<in> star A)"
proof
  assume "c # w \<in> star A"
  then show "\<exists>u v. w = u @ v \<and> c # u \<in> A \<and> v \<in> star A"
  proof (induction "c # w" rule: star.induct)
    case (star_app u v)
    then show ?case by (cases u) auto
  qed
next
  assume "\<exists>u v. w = u @ v \<and> c # u \<in> A \<and> v \<in> star A"
  then obtain u v where "w = u @ v" "c # u \<in> A" "v \<in> star A" by blast
  then show "c # w \<in> star A"
    using star.star_app [of "c # u" A v] by simp
qed

lemma deriv_lang: "(w \<in> lang (deriv c r)) = (c # w \<in> lang r)"
proof (induction r arbitrary: w)
  case (Seq r s)
  show ?case
  proof
    assume "w \<in> lang (deriv c (Seq r s))"
    then consider (l) u v where "w = u @ v" "u \<in> lang (deriv c r)" "v \<in> lang s"
      | (r) "nullable r" "w \<in> lang (deriv c s)"
      by (auto split: if_splits)
    then show "c # w \<in> lang (Seq r s)"
    proof cases
      case l
      then have "c # u \<in> lang r" using Seq.IH(1) by simp
      then have "c # w = (c # u) @ v \<and> c # u \<in> lang r \<and> v \<in> lang s"
        using l by simp
      then have "\<exists>a b. c # w = a @ b \<and> a \<in> lang r \<and> b \<in> lang s" by blast
      then show ?thesis by simp
    next
      case r
      then have "c # w = [] @ (c # w) \<and> [] \<in> lang r \<and> c # w \<in> lang s"
        using Seq.IH(2) by (simp add: nullable_lang)
      then have "\<exists>a b. c # w = a @ b \<and> a \<in> lang r \<and> b \<in> lang s" by blast
      then show ?thesis by simp
    qed
  next
    assume "c # w \<in> lang (Seq r s)"
    then obtain u v where uv: "c # w = u @ v" "u \<in> lang r" "v \<in> lang s" by auto
    show "w \<in> lang (deriv c (Seq r s))"
    proof (cases u)
      case Nil
      then have "nullable r" "w \<in> lang (deriv c s)"
        using uv Seq.IH(2) by (simp_all add: nullable_lang)
      then show ?thesis by simp
    next
      case (Cons a u')
      then have "a = c" "w = u' @ v" "u' \<in> lang (deriv c r)"
        using uv Seq.IH(1) by simp_all
      then show ?thesis using uv(3) by auto
    qed
  qed
next
  case (Star r)
  show ?case
    using Star.IH by (auto simp: star_cons_iff)
qed auto

lemma re_match_lang: "re_match r s = (\<exists>u v. s = u @ v \<and> u \<in> lang r)"
proof (induction s arbitrary: r)
  case Nil
  then show ?case by (simp add: nullable_lang)
next
  case (Cons c cs)
  show ?case
  proof
    assume "re_match r (c # cs)"
    then consider "nullable r" | "re_match (deriv c r) cs" by auto
    then show "\<exists>u v. c # cs = u @ v \<and> u \<in> lang r"
    proof cases
      case 1
      then have "c # cs = [] @ (c # cs) \<and> [] \<in> lang r" by (simp add: nullable_lang)
      then show ?thesis by blast
    next
      case 2
      then obtain u v where "cs = u @ v" "u \<in> lang (deriv c r)" using Cons.IH by blast
      then have "c # cs = (c # u) @ v \<and> c # u \<in> lang r" by (simp add: deriv_lang)
      then show ?thesis by blast
    qed
  next
    assume "\<exists>u v. c # cs = u @ v \<and> u \<in> lang r"
    then obtain u v where uv: "c # cs = u @ v" "u \<in> lang r" by blast
    show "re_match r (c # cs)"
    proof (cases u)
      case Nil
      then have "nullable r" using uv(2) by (simp add: nullable_lang)
      then show ?thesis by simp
    next
      case (Cons a u')
      then have "cs = u' @ v" "u' \<in> lang (deriv c r)" using uv by (simp_all add: deriv_lang)
      then have "re_match (deriv c r) cs" using Cons.IH by blast
      then show ?thesis by simp
    qed
  qed
qed

lemma re_search_lang: "re_search r s = (\<exists>p m q. s = p @ m @ q \<and> m \<in> lang r)"
proof (induction s)
  case Nil
  then show ?case by (simp add: nullable_lang)
next
  case (Cons c cs)
  show ?case
  proof
    assume "re_search r (c # cs)"
    then consider "re_match r (c # cs)" | "re_search r cs" by auto
    then show "\<exists>p m q. c # cs = p @ m @ q \<and> m \<in> lang r"
    proof cases
      case 1
      then obtain u v where "c # cs = u @ v" "u \<in> lang r" by (auto simp: re_match_lang)
      then have "c # cs = [] @ u @ v \<and> u \<in> lang r" by simp
      then show ?thesis by blast
    next
      case 2
      then obtain p m q where "cs = p @ m @ q" "m \<in> lang r" using Cons.IH by blast
      then have "c # cs = (c # p) @ m @ q \<and> m \<in> lang r" by simp
      then show ?thesis by blast
    qed
  next
    assume "\<exists>p m q. c # cs = p @ m @ q \<and> m \<in> lang r"
    then obtain p m q where pmq: "c # cs = p @ m @ q" "m \<in> lang r" by blast
    show "re_search r (c # cs)"
    proof (cases p)
      case Nil
      then have "re_match r (c # cs)" using pmq re_match_lang by auto
      then show ?thesis by simp
    next
      case (Cons a p')
      then have "cs = p' @ m @ q" using pmq by simp
      then have "re_search r cs" using Cons.IH pmq(2) by blast
      then show ?thesis by simp
    qed
  qed
qed

section \<open>The allow list read by tokens\<close>

lemma bare_verbs_eval:
  "bare_verbs = [''ls'', ''pwd'', ''whoami'', ''date'', ''uptime'', ''free'', ''df'', ''ps'', ''uname'']"
  by (simp add: bare_verbs_def allowed_prefixes_def)

lemma spaced_verbs_eval:
  "spaced_verbs = [''cat'', ''grep'', ''tail'', ''head'', ''wc'', ''find'', ''du'', ''echo'',
                   ''cd'', ''mkdir'', ''touch'', ''cp'', ''mv'']"
  by (simp add: spaced_verbs_def allowed_prefixes_def)

lemma prefix_first_token:
  assumes "\<forall>ch \<in> set p. \<not> isspace ch"
  shows "prefix p c = prefix p (first_token c)"
proof
  assume "prefix p c"
  then obtain r where "c = p @ r" by (auto simp: prefix_def)
  then have "first_token c = p @ takeWhile (\<lambda>ch. \<not> isspace ch) r"
    using assms by (simp add: first_token_def takeWhile_append2)
  then show "prefix p (first_token c)" by simp
next
  assume "prefix p (first_token c)"
  moreover have "prefix (first_token c) c"
    by (simp add: first_token_def takeWhile_is_prefix)
  ultimately show "prefix p c" by (rule prefix_order.trans)
qed

lemma first_token_spaced:
  assumes "\<forall>ch \<in> set v. \<not> isspace ch" and "prefix (v @ '' '') c"
  shows "first_token c = v"
proof -
  obtain r where "c = v @ CHR '' '' # r" using assms(2) by (auto simp: prefix_def)
  then show ?thesis
    using assms(1) by (simp add: first_token_def takeWhile_append2 isspace_def)
qed

lemma allowed_split:
  "prefix_hit allowed_prefixes c =
     (prefix_hit bare_verbs c \<or> prefix_hit (map (\<lambda>v. v @ '' '') spaced_verbs) c)"
  unfolding bare_verbs_eval spaced_verbs_eval allowed_prefixes_def list.map prefix_hit.simps append.simps
  by argo

lemma bare_no_space: "\<forall>v \<in> set bare_verbs. \<forall>ch \<in> set v. \<not> isspace ch"
  by (simp add: bare_verbs_eval isspace_def)

lemma spaced_no_space: "\<forall>v \<in> set spaced_verbs. \<forall>ch \<in> set v. \<not> isspace ch"
  by (simp add: spaced_verbs_eval isspace_def)

lemma prefix_hit_tokens: "prefix_hit allowed_prefixes c = token_begins c"
proof -
  have "(\<exists>p \<in> set bare_verbs. prefix p c) = (\<exists>v \<in> set bare_verbs. prefix v (first_token c))"
    using bare_no_space prefix_first_token by blast
  moreover have "(\<exists>v \<in> set spaced_verbs. prefix (v @ '' '') c)
      = (first_token c \<in> set spaced_verbs \<and> prefix (first_token c @ '' '') c)"
    using spaced_no_space first_token_spaced by blast
  ultimately show ?thesis
    unfolding allowed_split by (simp add: prefix_hit_iff token_begins_def startswith_prefix)
qed

section \<open>Properties of is_command_allowed\<close>

text \<open>
  Claim C2. If \<open>is_command_allowed\<close> accepts a string, then its lower-cased, stripped form
  starts with one of the allow prefixes, contains none of the blocked substrings, and no
  substring of it belongs to the language of any of the seven dangerous patterns. So a
  command with a blocked substring is rejected whatever its prefix.
\<close>

theorem allowed_command_passes_all_three_checks:
  "is_command_allowed x \<Longrightarrow>
     (\<exists>p \<in> set allowed_prefixes. prefix p (strip (lower x)))
     \<and> (\<forall>b \<in> set BLOCKED_COMMANDS. \<not> sublist b (strip (lower x)))
     \<and> (\<forall>r \<in> set dangerous_patterns.
          \<not> (\<exists>p m q. strip (lower x) = p @ m @ q \<and> m \<in> lang r))"
  unfolding is_command_allowed_def Let_def blocked_hit_iff pattern_hit_iff prefix_hit_iff
    re_search_lang
  by (auto split: if_splits)

theorem allowed_command_passes_all_three_checks_witness:
  "is_command_allowed ''ls -la /home''
   \<and> (\<exists>p \<in> set allowed_prefixes. prefix p (strip (lower ''ls -la /home'')))
   \<and> \<not> sublist ''kill'' (strip (lower ''ls -la /home''))
   \<and> \<not> (\<exists>p m q. strip (lower ''ls -la /home'') = p @ m @ q
              \<and> m \<in> lang (seqs [lits ''mkfs'', Plus (Atom WSpace)]))"
proof -
  have h: "is_command_allowed ''ls -la /home''" by code_simp
  have b: "''kill'' \<in> set BLOCKED_COMMANDS" by (simp add: BLOCKED_COMMANDS_def)
  have r: "seqs [lits ''mkfs'', Plus (Atom WSpace)] \<in> set dangerous_patterns"
    by (simp add: dangerous_patterns_def)
  show ?thesis
    using h b r allowed_command_passes_all_three_checks [OF h] by blast
qed

text \<open>
  Claim C6, as amended. For every command that passes the blocklist and the pattern scans,
  \<open>is_command_allowed\<close> accepts it if and only if its first token begins with one of the
  nine verbs listed bare (ls, pwd, whoami, date, uptime, free, df, ps, uname), or its first
  token is exactly one of the thirteen verbs listed with a trailing space and one space
  follows it. The claim as first stated asks the first token to be exactly a bare verb;
  \<open>lsblk\<close> is accepted and refutes that.
\<close>

theorem first_token_exact_counterexample:
  "scans_pass ''lsblk'' \<and> is_command_allowed ''lsblk''
   \<and> first_token (strip (lower ''lsblk'')) = ''lsblk''
   \<and> \<not> token_exact (strip (lower ''lsblk''))"
  by code_simp

theorem allowed_iff_first_token_begins:
  "scans_pass x \<Longrightarrow> is_command_allowed x = token_begins (strip (lower x))"
  by (simp add: is_command_allowed_def scans_pass_def Let_def prefix_hit_tokens)

theorem allowed_iff_first_token_begins_witness:
  "scans_pass ''cat notes.txt''
   \<and> is_command_allowed ''cat notes.txt'' = token_begins (strip (lower ''cat notes.txt''))
   \<and> token_begins (strip (lower ''cat notes.txt''))"
proof -
  have h: "scans_pass ''cat notes.txt''" by code_simp
  have t: "token_begins (strip (lower ''cat notes.txt''))" by code_simp
  show ?thesis
    using h t allowed_iff_first_token_begins [OF h] by blast
qed

text \<open>
  Claim C10. The blocklist scan is substring containment over the lower-cased command:
  a command that contains a blocked string anywhere is rejected, also when the string
  sits inside another word and the command starts with an allowed verb. So
  \<open>cat address.txt\<close> is rejected: it starts with \<open>cat \<close>, and \<open>address\<close> contains \<open>dd\<close>.
\<close>

theorem blocked_substring_rejected_anywhere:
  "(\<forall>b x. b \<in> set BLOCKED_COMMANDS \<and> str_in b (strip (lower x)) \<longrightarrow> \<not> is_command_allowed x)
   \<and> startswith (strip (lower ''cat address.txt'')) ''cat ''
   \<and> str_in ''dd'' ''address''
   \<and> \<not> is_command_allowed ''cat address.txt''"
proof -
  have "\<not> is_command_allowed x" if "b \<in> set BLOCKED_COMMANDS" "str_in b (strip (lower x))" for b x
    using that unfolding is_command_allowed_def Let_def blocked_hit_iff str_in_sublist by auto
  moreover have "startswith (strip (lower ''cat address.txt'')) ''cat ''" by code_simp
  moreover have "str_in ''dd'' ''address''" by code_simp
  moreover have "\<not> is_command_allowed ''cat address.txt''" by code_simp
  ultimately show ?thesis by blast
qed

theorem blocked_substring_rejected_anywhere_witness:
  "''dd'' \<in> set BLOCKED_COMMANDS \<and> str_in ''dd'' (strip (lower ''cat /home/daddy/list''))
   \<and> \<not> pattern_hit dangerous_patterns (strip (lower ''cat /home/daddy/list''))
   \<and> \<not> is_command_allowed ''cat /home/daddy/list''"
proof -
  have a: "''dd'' \<in> set BLOCKED_COMMANDS" by code_simp
  have b: "str_in ''dd'' (strip (lower ''cat /home/daddy/list''))" by code_simp
  have c: "\<not> pattern_hit dangerous_patterns (strip (lower ''cat /home/daddy/list''))"
    by code_simp
  show ?thesis
    using a b c blocked_substring_rejected_anywhere by blast
qed

section \<open>Properties of sanitize_command\<close>

text \<open>
  Claim C5. For every input string, the output of \<open>sanitize_command\<close> contains none of
  the characters \<open>;\<close>, \<open>&\<close>, \<open>|\<close>, backtick, \<open>$\<close>, \<open><\<close>, \<open>>\<close>.
\<close>

theorem sanitize_command_strips_metacharacters:
  "CHR '';'' \<notin> set (sanitize_command x) \<and> CHR ''&'' \<notin> set (sanitize_command x)
   \<and> CHR ''|'' \<notin> set (sanitize_command x) \<and> CHR 0x60 \<notin> set (sanitize_command x)
   \<and> CHR ''$'' \<notin> set (sanitize_command x) \<and> CHR ''<'' \<notin> set (sanitize_command x)
   \<and> CHR ''>'' \<notin> set (sanitize_command x)"
  by (simp add: sanitize_command_def dangerous_chars_def Let_def)

theorem sanitize_command_strips_metacharacters_witness:
  "sanitize_command ''cat /etc/passwd; rm -rf /'' = ''cat /etc/passwd rm -rf /''
   \<and> CHR '';'' \<notin> set (sanitize_command ''cat /etc/passwd; rm -rf /'')"
proof -
  have a: "sanitize_command ''cat /etc/passwd; rm -rf /'' = ''cat /etc/passwd rm -rf /''"
    by code_simp
  have b: "CHR '';'' \<notin> set (sanitize_command ''cat /etc/passwd; rm -rf /'')"
    using sanitize_command_strips_metacharacters [of "''cat /etc/passwd; rm -rf /''"]
    by blast
  show ?thesis using a b by blast
qed

text \<open>
  Claim C4 says that \<open>sanitize_command\<close> is idempotent. The source collapses the white
  space first and deletes the seven characters afterwards, so a deleted character that
  stood between two spaces leaves both behind: \<open>ls ; pwd\<close> becomes \<open>ls  pwd\<close> with two
  spaces, and a second pass turns that into \<open>ls pwd\<close>.
\<close>

theorem sanitize_command_second_pass_differs:
  "sanitize_command ''ls ; pwd'' = ''ls  pwd''
   \<and> sanitize_command (sanitize_command ''ls ; pwd'') = ''ls pwd''
   \<and> sanitize_command (sanitize_command ''ls ; pwd'') \<noteq> sanitize_command ''ls ; pwd''"
  by code_simp

section \<open>Properties of the session executor and the endpoint\<close>

lemmas prog_defs = ret_def raise_def thn_def call_def new_client_def st0_def finally_close_def

lemma rejected_command:
  "\<not> is_command_allowed command \<Longrightarrow>
     execute_command w host username port password ssh_key command =
       (Inl (Exception, ''Error executing command: Command not allowed: '' @ command), [])"
  by (simp add: execute_command_def execute_try_def execute_except_def prog_defs)

lemma missing_credential:
  "is_command_allowed command \<Longrightarrow> \<not> truthy password \<Longrightarrow> \<not> truthy ssh_key \<Longrightarrow>
     execute_command w host username port password ssh_key command =
       (Inl (Exception,
             ''Error executing command: Either password or SSH key must be provided''),
        [SSHClient_new, Client_close])"
  by (simp add: execute_command_def execute_try_def execute_except_def prog_defs)

lemma rejected_endpoint:
  "\<not> is_command_allowed (sanitize_command raw) \<Longrightarrow>
     execute_endpoint w (Some srv) raw =
       (HTTPException 500
          (''Failed to execute command: Error executing command: Command not allowed: ''
             @ sanitize_command raw), [])"
  by (simp add: execute_endpoint_def Let_def rejected_command endpoint_except_def)

text \<open>What \<open>test_connection\<close> answers to each failing call, and when it answers \<open>True\<close>.\<close>

lemma test_true_iff:
  "(fst (test_connection w host username port password ssh_key) = Inr True) =
     (((truthy ssh_key \<and>
          (\<exists>k. from_private_key w (the ssh_key) = Inr k
             \<and> connect w host username port (PKey k) 10 = Inr ()))
        \<or> (\<not> truthy ssh_key \<and> truthy password
             \<and> connect w host username port (Password (the password)) 10 = Inr ()))
      \<and> exec_command w probe_command = Inr ()
      \<and> (\<exists>b t. stdout_read w = Inr b \<and> decode_utf8 w b = Inr t
             \<and> str_in ''Connection successful'' (strip t)))"
  by (auto simp: test_connection_def test_try_def test_probe_def prog_defs
      split: sum.splits prod.splits)

lemma test_key_load_fails:
  "truthy ssh_key \<Longrightarrow> from_private_key w (the ssh_key) = Inl e \<Longrightarrow>
     test_connection w host username port password ssh_key =
       (Inr False, [SSHClient_new, From_private_key (the ssh_key), Client_close])"
  by (simp add: test_connection_def test_try_def prog_defs)

lemma test_key_connect_fails:
  "truthy ssh_key \<Longrightarrow> from_private_key w (the ssh_key) = Inr k \<Longrightarrow>
   connect w host username port (PKey k) 10 = Inl e \<Longrightarrow>
     test_connection w host username port password ssh_key =
       (Inr False, [SSHClient_new, From_private_key (the ssh_key),
                    Client_connect host username port (PKey k) 10, Client_close])"
  by (simp add: test_connection_def test_try_def prog_defs)

lemma test_password_connect_fails:
  "\<not> truthy ssh_key \<Longrightarrow> truthy password \<Longrightarrow>
   connect w host username port (Password (the password)) 10 = Inl e \<Longrightarrow>
     test_connection w host username port password ssh_key =
       (Inr False, [SSHClient_new,
                    Client_connect host username port (Password (the password)) 10,
                    Client_close])"
  by (simp add: test_connection_def test_try_def prog_defs)

lemma test_exec_fails:
  "exec_command w probe_command = Inl e \<Longrightarrow>
     fst (test_connection w host username port password ssh_key) = Inr False"
  by (simp add: test_connection_def test_try_def test_probe_def prog_defs
      split: sum.splits prod.splits)

lemma test_read_fails:
  "stdout_read w = Inl e \<Longrightarrow>
     fst (test_connection w host username port password ssh_key) = Inr False"
  by (simp add: test_connection_def test_try_def test_probe_def prog_defs
      split: sum.splits prod.splits)

lemma test_decode_fails:
  "stdout_read w = Inr b \<Longrightarrow> decode_utf8 w b = Inl e \<Longrightarrow>
     fst (test_connection w host username port password ssh_key) = Inr False"
  by (simp add: test_connection_def test_try_def test_probe_def prog_defs
      split: sum.splits prod.splits)

text \<open>The first calls of both functions, by the credential supplied.\<close>

lemma execute_key_loaded:
  "is_command_allowed command \<Longrightarrow> truthy ssh_key \<Longrightarrow>
     take 2 (snd (execute_command w host username port password ssh_key command))
       = [SSHClient_new, From_private_key (the ssh_key)]"
  by (simp add: execute_command_def execute_try_def prog_defs
      split: sum.splits prod.splits)

lemma execute_key_connect:
  "is_command_allowed command \<Longrightarrow> truthy ssh_key \<Longrightarrow>
   from_private_key w (the ssh_key) = Inr k \<Longrightarrow>
     take 3 (snd (execute_command w host username port password ssh_key command))
       = [SSHClient_new, From_private_key (the ssh_key),
          Client_connect host username port (PKey k) SSH_TIMEOUT]"
  by (simp add: execute_command_def execute_try_def prog_defs
      split: sum.splits prod.splits)

lemma execute_key_load_fails:
  "is_command_allowed command \<Longrightarrow> truthy ssh_key \<Longrightarrow>
   from_private_key w (the ssh_key) = Inl e \<Longrightarrow>
     snd (execute_command w host username port password ssh_key command)
       = [SSHClient_new, From_private_key (the ssh_key), Client_close]"
  by (simp add: execute_command_def execute_try_def prog_defs
      split: sum.splits prod.splits)

lemma execute_password_connect:
  "is_command_allowed command \<Longrightarrow> \<not> truthy ssh_key \<Longrightarrow> truthy password \<Longrightarrow>
     take 2 (snd (execute_command w host username port password ssh_key command))
       = [SSHClient_new,
          Client_connect host username port (Password (the password)) SSH_TIMEOUT]"
  by (simp add: execute_command_def execute_try_def prog_defs
      split: sum.splits prod.splits)

lemma test_key_loaded:
  "truthy ssh_key \<Longrightarrow>
     take 2 (snd (test_connection w host username port password ssh_key))
       = [SSHClient_new, From_private_key (the ssh_key)]"
  by (simp add: test_connection_def test_try_def test_probe_def prog_defs
      split: sum.splits prod.splits)

lemma test_key_connect:
  "truthy ssh_key \<Longrightarrow> from_private_key w (the ssh_key) = Inr k \<Longrightarrow>
     take 3 (snd (test_connection w host username port password ssh_key))
       = [SSHClient_new, From_private_key (the ssh_key),
          Client_connect host username port (PKey k) 10]"
  by (simp add: test_connection_def test_try_def test_probe_def prog_defs
      split: sum.splits prod.splits)

lemma test_password_connect:
  "\<not> truthy ssh_key \<Longrightarrow> truthy password \<Longrightarrow>
     take 2 (snd (test_connection w host username port password ssh_key))
       = [SSHClient_new, Client_connect host username port (Password (the password)) 10]"
  by (simp add: test_connection_def test_try_def test_probe_def prog_defs
      split: sum.splits prod.splits)

text \<open>
  Claim C1. Whatever the credential, when the policy rejects the sanitized command,
  \<open>execute_command\<close> raises an error that names the rejected command without having made
  any call: no client is created and nothing reaches the network. The same holds for the
  endpoint that sanitizes the raw command and calls it.
\<close>

theorem rejected_command_makes_no_call:
  "\<not> is_command_allowed (sanitize_command raw) \<Longrightarrow>
     execute_command w host username port password ssh_key (sanitize_command raw) =
       (Inl (Exception,
             ''Error executing command: Command not allowed: '' @ sanitize_command raw), [])
     \<and> snd (execute_endpoint w (Some srv) raw) = []
     \<and> \<not> list_ex network_event (snd (execute_endpoint w (Some srv) raw))"
  by (simp add: rejected_command rejected_endpoint)

theorem rejected_command_makes_no_call_witness:
  "\<not> is_command_allowed (sanitize_command ''cat /etc/passwd; rm -rf /'')
   \<and> execute_command world_up ''example.org'' ''admin'' 22 (Some ''secret'') None
        (sanitize_command ''cat /etc/passwd; rm -rf /'') =
       (Inl (Exception, ''Error executing command: Command not allowed: ''
               @ sanitize_command ''cat /etc/passwd; rm -rf /''), [])
   \<and> snd (execute_endpoint world_up (Some sample_server) ''cat /etc/passwd; rm -rf /'') = []"
proof -
  have h: "\<not> is_command_allowed (sanitize_command ''cat /etc/passwd; rm -rf /'')"
    by code_simp
  show ?thesis
    using h rejected_command_makes_no_call [OF h, of world_up "''example.org''" "''admin''" 22
        "Some ''secret''" None sample_server]
    by blast
qed

text \<open>
  Claim C3 says that a policy violation and a missing credential each give a 4xx outcome.
  \<open>execute_command\<close> catches its own \<open>ValueError\<close> in its last \<open>except\<close> clause and raises
  a plain \<open>Exception\<close> instead, so the endpoint's \<open>except ValueError\<close> clause never sees
  either of them: both give status 500.
\<close>

theorem policy_violation_and_missing_credential_give_500:
  "execute_endpoint w (Some srv) ''shutdown -h now'' =
     (HTTPException 500
        ''Failed to execute command: Error executing command: Command not allowed: shutdown -h now'',
      [])
   \<and> execute_endpoint w
        (Some \<lparr>srv_name = n, srv_host = h, srv_username = u, srv_port = p,
               srv_use_password = True, srv_password = None, srv_ssh_key = k\<rparr>) ''ls'' =
     (HTTPException 500
        ''Failed to execute command: Error executing command: Either password or SSH key must be provided'',
      [SSHClient_new, Client_close])"
proof -
  have s1: "sanitize_command ''shutdown -h now'' = ''shutdown -h now''" by code_simp
  have r1: "\<not> is_command_allowed (sanitize_command ''shutdown -h now'')" by code_simp
  have s2: "sanitize_command ''ls'' = ''ls''" by code_simp
  have r2: "is_command_allowed ''ls''" by code_simp
  have a: "execute_endpoint w (Some srv) ''shutdown -h now'' =
     (HTTPException 500
        (''Failed to execute command: Error executing command: Command not allowed: ''
           @ ''shutdown -h now''), [])"
    using rejected_endpoint [OF r1] s1 by simp
  have b: "execute_endpoint w
        (Some \<lparr>srv_name = n, srv_host = h, srv_username = u, srv_port = p,
               srv_use_password = True, srv_password = None, srv_ssh_key = k\<rparr>) ''ls'' =
     (HTTPException 500
        (''Failed to execute command: '' @
           ''Error executing command: Either password or SSH key must be provided''),
      [SSHClient_new, Client_close])"
    by (simp add: execute_endpoint_def Let_def s2 missing_credential [OF r2] endpoint_except_def)
  show ?thesis using a b by simp
qed

text \<open>
  Claim C7. For every credential and every behaviour of the outside, \<open>test_connection\<close>
  returns a boolean and raises nothing. With neither a password nor a key it returns
  \<open>False\<close> after creating and closing a client, with no call to the network. It returns
  \<open>False\<close> when the key does not load, when the host refuses or fails the connection
  (with the key or with the password), when the probe command cannot be started, when
  its output cannot be read or decoded, and in general whenever a call inside its \<open>try\<close>
  block raises. It returns \<open>True\<close> exactly when the connection is made, the probe runs
  and its decoded output contains \<open>Connection successful\<close>.
\<close>

theorem test_connection_never_raises:
  "(\<exists>b. fst (test_connection w host username port password ssh_key) = Inr b)
   \<and> (\<not> truthy password \<and> \<not> truthy ssh_key \<longrightarrow>
        test_connection w host username port password ssh_key =
          (Inr False, [SSHClient_new, Client_close])
        \<and> \<not> list_ex network_event
              (snd (test_connection w host username port password ssh_key)))
   \<and> (\<forall>e. fst (test_try w host username port password ssh_key st0) = Inl e \<longrightarrow>
        fst (test_connection w host username port password ssh_key) = Inr False)
   \<and> (\<forall>e. truthy ssh_key \<and> from_private_key w (the ssh_key) = Inl e \<longrightarrow>
        test_connection w host username port password ssh_key =
          (Inr False, [SSHClient_new, From_private_key (the ssh_key), Client_close]))
   \<and> (\<forall>e k. truthy ssh_key \<and> from_private_key w (the ssh_key) = Inr k
          \<and> connect w host username port (PKey k) 10 = Inl e \<longrightarrow>
        test_connection w host username port password ssh_key =
          (Inr False, [SSHClient_new, From_private_key (the ssh_key),
                       Client_connect host username port (PKey k) 10, Client_close]))
   \<and> (\<forall>e. \<not> truthy ssh_key \<and> truthy password
          \<and> connect w host username port (Password (the password)) 10 = Inl e \<longrightarrow>
        test_connection w host username port password ssh_key =
          (Inr False, [SSHClient_new,
                       Client_connect host username port (Password (the password)) 10,
                       Client_close]))
   \<and> (\<forall>e. exec_command w probe_command = Inl e \<longrightarrow>
        fst (test_connection w host username port password ssh_key) = Inr False)
   \<and> (\<forall>e. stdout_read w = Inl e \<longrightarrow>
        fst (test_connection w host username port password ssh_key) = Inr False)
   \<and> (\<forall>e b. stdout_read w = Inr b \<and> decode_utf8 w b = Inl e \<longrightarrow>
        fst (test_connection w host username port password ssh_key) = Inr False)
   \<and> ((fst (test_connection w host username port password ssh_key) = Inr True) =
        (((truthy ssh_key \<and>
             (\<exists>k. from_private_key w (the ssh_key) = Inr k
                \<and> connect w host username port (PKey k) 10 = Inr ()))
           \<or> (\<not> truthy ssh_key \<and> truthy password
                \<and> connect w host username port (Password (the password)) 10 = Inr ()))
         \<and> exec_command w probe_command = Inr ()
         \<and> (\<exists>b t. stdout_read w = Inr b \<and> decode_utf8 w b = Inr t
                \<and> str_in ''Connection successful'' (strip t))))"
proof -
  obtain r s where rs: "test_try w host username port password ssh_key st0 = (r, s)"
    by (cases "test_try w host username port password ssh_key st0")
  have total: "\<exists>b. fst (test_connection w host username port password ssh_key) = Inr b"
    using rs by (cases r) (auto simp: test_connection_def)
  have missing: "test_connection w host username port password ssh_key =
      (Inr False, [SSHClient_new, Client_close])
      \<and> \<not> list_ex network_event (snd (test_connection w host username port password ssh_key))"
    if "\<not> truthy password \<and> \<not> truthy ssh_key"
    using that by (simp add: test_connection_def test_try_def prog_defs)
  have failing: "fst (test_connection w host username port password ssh_key) = Inr False"
    if "fst (test_try w host username port password ssh_key st0) = Inl e" for e
    using that rs by (simp add: test_connection_def)
  show ?thesis
    apply (intro conjI allI impI)
    subgoal by (rule total)
    subgoal using missing by blast
    subgoal using missing by blast
    subgoal for e by (rule failing)
    subgoal for e using test_key_load_fails by blast
    subgoal for e k using test_key_connect_fails by blast
    subgoal for e using test_password_connect_fails by blast
    subgoal for e using test_exec_fails by blast
    subgoal for e using test_read_fails by blast
    subgoal for e b using test_decode_fails by blast
    subgoal by (rule test_true_iff)
    done
qed

theorem test_connection_never_raises_witness:
  "truthy (Some ''secret'') \<and> \<not> truthy None \<and> \<not> truthy (Some [])
   \<and> connect world_refusing ''example.org'' ''admin'' 22 (Password ''secret'') 10
     = Inl (AuthenticationException, ''Authentication failed.'')
   \<and> test_connection world_refusing ''example.org'' ''admin'' 22 (Some ''secret'') None
     = (Inr False,
        [SSHClient_new, Client_connect ''example.org'' ''admin'' 22 (Password ''secret'') 10,
         Client_close])
   \<and> fst (test_connection world_up ''example.org'' ''admin'' 22 (Some ''secret'') None)
     = Inr True
   \<and> test_connection world_up ''example.org'' ''admin'' 22 (Some []) None
     = (Inr False, [SSHClient_new, Client_close])"
proof -
  have t: "truthy (Some ''secret'') \<and> \<not> truthy None \<and> \<not> truthy (Some [])" by simp
  have c: "connect world_refusing ''example.org'' ''admin'' 22 (Password ''secret'') 10
     = Inl (AuthenticationException, ''Authentication failed.'')"
    by (simp add: world_refusing_def world_up_def)
  have u: "connect world_up ''example.org'' ''admin'' 22 (Password ''secret'') 10 = Inr ()
     \<and> exec_command world_up probe_command = Inr ()
     \<and> stdout_read world_up = Inr ''Connection successful''
     \<and> decode_utf8 world_up ''Connection successful'' = Inr ''Connection successful''"
    by (simp add: world_up_def)
  have s: "str_in ''Connection successful'' (strip ''Connection successful'')" by code_simp
  have refused:
    "test_connection world_refusing ''example.org'' ''admin'' 22 (Some ''secret'') None
     = (Inr False,
        [SSHClient_new, Client_connect ''example.org'' ''admin'' 22 (Password ''secret'') 10,
         Client_close])"
    using t c
      test_connection_never_raises [of world_refusing "''example.org''" "''admin''" 22
        "Some ''secret''" None]
    by simp
  have up: "fst (test_connection world_up ''example.org'' ''admin'' 22 (Some ''secret'') None)
     = Inr True"
    using t u s
      test_connection_never_raises [of world_up "''example.org''" "''admin''" 22
        "Some ''secret''" None]
    by simp
  have none: "test_connection world_up ''example.org'' ''admin'' 22 (Some []) None
     = (Inr False, [SSHClient_new, Client_close])"
    using t
      test_connection_never_raises [of world_up "''example.org''" "''admin''" 22
        "Some []" None]
    by simp
  show ?thesis using t c refused up none by blast
qed

text \<open>
  Claim C8. On every exit path of \<open>execute_command\<close> and of \<open>test_connection\<close>, whatever
  the outside answers, no client is open when the call ends: a client that was created
  has been closed, and the close is the last call made.
\<close>

theorem no_client_left_open:
  "\<not> open_after False (snd (execute_command w host username port password ssh_key command))
   \<and> \<not> open_after False (snd (test_connection w host username port password ssh_key))
   \<and> (snd (execute_command w host username port password ssh_key command) = []
      \<or> last (snd (execute_command w host username port password ssh_key command))
          = Client_close)
   \<and> last (snd (test_connection w host username port password ssh_key)) = Client_close"
proof -
  have a: "\<not> open_after False
             (snd (execute_command w host username port password ssh_key command))"
    by (simp add: execute_command_def execute_try_def prog_defs
        split: sum.splits prod.splits)
  have b: "\<not> open_after False (snd (test_connection w host username port password ssh_key))"
    by (simp add: test_connection_def test_try_def test_probe_def prog_defs
        split: sum.splits prod.splits)
  have c: "snd (execute_command w host username port password ssh_key command) = []
      \<or> last (snd (execute_command w host username port password ssh_key command))
          = Client_close"
    by (simp add: execute_command_def execute_try_def prog_defs
        split: sum.splits prod.splits)
  have d: "last (snd (test_connection w host username port password ssh_key)) = Client_close"
    by (simp add: test_connection_def test_try_def test_probe_def prog_defs
        split: sum.splits prod.splits)
  show ?thesis using a b c d by blast
qed

theorem no_client_left_open_witness:
  "snd (execute_command world_refusing ''example.org'' ''admin'' 22 (Some ''secret'') None ''ls'')
     = [SSHClient_new,
        Client_connect ''example.org'' ''admin'' 22 (Password ''secret'') 30,
        Client_close]
   \<and> \<not> open_after False
        (snd (execute_command world_refusing ''example.org'' ''admin'' 22 (Some ''secret'') None
               ''ls''))"
proof -
  have ok: "is_command_allowed ''ls''" by code_simp
  have tr: "snd (execute_command world_refusing ''example.org'' ''admin'' 22 (Some ''secret'')
                   None ''ls'')
     = [SSHClient_new,
        Client_connect ''example.org'' ''admin'' 22 (Password ''secret'') 30,
        Client_close]"
    using ok
    by (simp add: execute_command_def execute_try_def prog_defs world_refusing_def
        world_up_def SSH_TIMEOUT_def)
  show ?thesis
    using tr no_client_left_open [of world_refusing "''example.org''" "''admin''" 22
        "Some ''secret''" None "''ls''"]
    by blast
qed

text \<open>
  Claim C9. When an SSH key is supplied, with or without a password, \<open>execute_command\<close>
  (on an allowed command) and \<open>test_connection\<close> load that key right after creating the
  client and, when it loads, connect with it; a key that does not load ends the call with
  no connection tried. They behave as if no password had been given and never connect
  with a password. The password is used to connect only when no key is supplied. For an
  allowed command, \<open>execute_command\<close> ends after creating and closing a client, with no
  key loaded and no connection tried, exactly when the password and the key are both
  absent, and it then raises the missing-credential error; \<open>test_connection\<close> ends that
  way, returning \<open>False\<close>, exactly when both are absent.
\<close>

theorem ssh_key_takes_precedence:
  "(truthy ssh_key \<longrightarrow>
      execute_command w host username port password ssh_key command
        = execute_command w host username port None ssh_key command
      \<and> test_connection w host username port password ssh_key
        = test_connection w host username port None ssh_key
      \<and> Client_connect h u p (Password pw) t
          \<notin> set (snd (execute_command w host username port password ssh_key command))
      \<and> Client_connect h u p (Password pw) t
          \<notin> set (snd (test_connection w host username port password ssh_key)))
   \<and> (is_command_allowed command \<longrightarrow>
        (snd (execute_command w host username port password ssh_key command)
           = [SSHClient_new, Client_close])
        = (\<not> truthy password \<and> \<not> truthy ssh_key))
   \<and> (is_command_allowed command \<and> \<not> truthy password \<and> \<not> truthy ssh_key \<longrightarrow>
        fst (execute_command w host username port password ssh_key command)
          = Inl (Exception,
                 ''Error executing command: Either password or SSH key must be provided''))
   \<and> ((snd (test_connection w host username port password ssh_key)
          = [SSHClient_new, Client_close])
        = (\<not> truthy password \<and> \<not> truthy ssh_key))
   \<and> (truthy ssh_key \<and> is_command_allowed command \<longrightarrow>
        take 2 (snd (execute_command w host username port password ssh_key command))
          = [SSHClient_new, From_private_key (the ssh_key)])
   \<and> (\<forall>k. truthy ssh_key \<and> is_command_allowed command
          \<and> from_private_key w (the ssh_key) = Inr k \<longrightarrow>
        take 3 (snd (execute_command w host username port password ssh_key command))
          = [SSHClient_new, From_private_key (the ssh_key),
             Client_connect host username port (PKey k) SSH_TIMEOUT])
   \<and> (\<forall>e. truthy ssh_key \<and> is_command_allowed command
          \<and> from_private_key w (the ssh_key) = Inl e \<longrightarrow>
        snd (execute_command w host username port password ssh_key command)
          = [SSHClient_new, From_private_key (the ssh_key), Client_close])
   \<and> (truthy ssh_key \<longrightarrow>
        take 2 (snd (test_connection w host username port password ssh_key))
          = [SSHClient_new, From_private_key (the ssh_key)])
   \<and> (\<forall>k. truthy ssh_key \<and> from_private_key w (the ssh_key) = Inr k \<longrightarrow>
        take 3 (snd (test_connection w host username port password ssh_key))
          = [SSHClient_new, From_private_key (the ssh_key),
             Client_connect host username port (PKey k) 10])
   \<and> (\<forall>e. truthy ssh_key \<and> from_private_key w (the ssh_key) = Inl e \<longrightarrow>
        snd (test_connection w host username port password ssh_key)
          = [SSHClient_new, From_private_key (the ssh_key), Client_close])
   \<and> (\<not> truthy ssh_key \<and> truthy password \<and> is_command_allowed command \<longrightarrow>
        take 2 (snd (execute_command w host username port password ssh_key command))
          = [SSHClient_new,
             Client_connect host username port (Password (the password)) SSH_TIMEOUT])
   \<and> (\<not> truthy ssh_key \<and> truthy password \<longrightarrow>
        take 2 (snd (test_connection w host username port password ssh_key))
          = [SSHClient_new, Client_connect host username port (Password (the password)) 10])"
proof -
  have a: "execute_command w host username port password ssh_key command
        = execute_command w host username port None ssh_key command" if "truthy ssh_key"
    using that by (simp add: execute_command_def execute_try_def)
  have b: "test_connection w host username port password ssh_key
        = test_connection w host username port None ssh_key" if "truthy ssh_key"
    using that by (simp add: test_connection_def test_try_def)
  have c: "Client_connect h u p (Password pw) t
          \<notin> set (snd (execute_command w host username port password ssh_key command))"
    if "truthy ssh_key"
    using that
    by (simp add: execute_command_def execute_try_def prog_defs split: sum.splits prod.splits)
  have d: "Client_connect h u p (Password pw) t
          \<notin> set (snd (test_connection w host username port password ssh_key))"
    if "truthy ssh_key"
    using that
    by (simp add: test_connection_def test_try_def test_probe_def prog_defs
        split: sum.splits prod.splits)
  have e: "(snd (execute_command w host username port password ssh_key command)
           = [SSHClient_new, Client_close])
        = (\<not> truthy password \<and> \<not> truthy ssh_key)" if "is_command_allowed command"
    using that
    by (simp add: execute_command_def execute_try_def prog_defs split: sum.splits prod.splits)
  have f: "fst (execute_command w host username port password ssh_key command)
          = Inl (Exception,
                 ''Error executing command: Either password or SSH key must be provided'')"
    if "is_command_allowed command" "\<not> truthy password" "\<not> truthy ssh_key"
    using missing_credential [OF that] by simp
  have g: "(snd (test_connection w host username port password ssh_key)
          = [SSHClient_new, Client_close])
        = (\<not> truthy password \<and> \<not> truthy ssh_key)"
    by (simp add: test_connection_def test_try_def test_probe_def prog_defs
        split: sum.splits prod.splits)
  show ?thesis
    apply (intro conjI allI impI)
    subgoal by (rule a)
    subgoal by (rule b)
    subgoal by (rule c)
    subgoal by (rule d)
    subgoal by (rule e)
    subgoal using f by blast
    subgoal by (rule g)
    subgoal using execute_key_loaded by blast
    subgoal for k using execute_key_connect by blast
    subgoal for e using execute_key_load_fails by blast
    subgoal using test_key_loaded by blast
    subgoal for k using test_key_connect by blast
    subgoal for e using test_key_load_fails by simp
    subgoal using execute_password_connect by blast
    subgoal using test_password_connect by blast
    done
qed

theorem ssh_key_takes_precedence_witness:
  "truthy (Some ''KEY'') \<and> truthy (Some ''secret'') \<and> is_command_allowed ''ls''
   \<and> from_private_key world_up ''KEY'' = Inr ''KEY''
   \<and> execute_command world_up ''example.org'' ''admin'' 22 (Some ''secret'') (Some ''KEY'') ''ls''
     = execute_command world_up ''example.org'' ''admin'' 22 None (Some ''KEY'') ''ls''
   \<and> take 3 (snd (execute_command world_up ''example.org'' ''admin'' 22 (Some ''secret'')
                    (Some ''KEY'') ''ls''))
     = [SSHClient_new, From_private_key ''KEY'',
        Client_connect ''example.org'' ''admin'' 22 (PKey ''KEY'') SSH_TIMEOUT]
   \<and> take 3 (snd (test_connection world_up ''example.org'' ''admin'' 22 (Some ''secret'')
                    (Some ''KEY'')))
     = [SSHClient_new, From_private_key ''KEY'',
        Client_connect ''example.org'' ''admin'' 22 (PKey ''KEY'') 10]
   \<and> snd (execute_command world_up ''example.org'' ''admin'' 22 (Some ''secret'') (Some ''KEY'')
            ''ls'')
     = [SSHClient_new, From_private_key ''KEY'',
        Client_connect ''example.org'' ''admin'' 22 (PKey ''KEY'') 30,
        Client_exec_command ''ls'', Stdout_read, Stderr_read, Recv_exit_status, Client_close]
   \<and> snd (execute_command world_up ''example.org'' ''admin'' 22 None None ''ls'')
     = [SSHClient_new, Client_close]"
proof -
  have k: "truthy (Some ''KEY'') \<and> truthy (Some ''secret'')" by simp
  have ok: "is_command_allowed ''ls''" by code_simp
  have ld: "from_private_key world_up ''KEY'' = Inr ''KEY''" by (simp add: world_up_def)
  have tr: "snd (execute_command world_up ''example.org'' ''admin'' 22 (Some ''secret'')
                   (Some ''KEY'') ''ls'')
     = [SSHClient_new, From_private_key ''KEY'',
        Client_connect ''example.org'' ''admin'' 22 (PKey ''KEY'') 30,
        Client_exec_command ''ls'', Stdout_read, Stderr_read, Recv_exit_status, Client_close]"
    using ok
    by (simp add: execute_command_def execute_try_def prog_defs world_up_def SSH_TIMEOUT_def)
  have n: "\<not> truthy None" by simp
  note with_key = ssh_key_takes_precedence [of "Some ''KEY''" world_up "''example.org''"
      "''admin''" 22 "Some ''secret''" "''ls''"]
  note without = ssh_key_takes_precedence [of None world_up "''example.org''" "''admin''" 22
      None "''ls''"]
  have same: "execute_command world_up ''example.org'' ''admin'' 22 (Some ''secret'')
        (Some ''KEY'') ''ls''
     = execute_command world_up ''example.org'' ''admin'' 22 None (Some ''KEY'') ''ls''"
    using k with_key by blast
  have e3: "take 3 (snd (execute_command world_up ''example.org'' ''admin'' 22 (Some ''secret'')
                    (Some ''KEY'') ''ls''))
     = [SSHClient_new, From_private_key ''KEY'',
        Client_connect ''example.org'' ''admin'' 22 (PKey ''KEY'') SSH_TIMEOUT]"
    using k ok ld with_key [unfolded option.sel] by blast
  have t3: "take 3 (snd (test_connection world_up ''example.org'' ''admin'' 22 (Some ''secret'')
                    (Some ''KEY'')))
     = [SSHClient_new, From_private_key ''KEY'',
        Client_connect ''example.org'' ''admin'' 22 (PKey ''KEY'') 10]"
    using k ld with_key [unfolded option.sel] by blast
  have none: "snd (execute_command world_up ''example.org'' ''admin'' 22 None None ''ls'')
     = [SSHClient_new, Client_close]"
    using ok n without by blast
  show ?thesis using k ok ld same e3 t3 tr none by blast
qed

end
